theory Spec2Isabelle
  imports Complex_Main "HOL-Library.Multiset"
begin

section \<open>Data model\<close>

text \<open>
  The clustering engine of the waste-mapping dashboard (\<^verbatim>\<open>ClusteringEngine.js\<close>) works on
  hotspot documents (\<^verbatim>\<open>models/Hotspot.js\<close>). A JavaScript number is modelled as a real
  number (exact arithmetic, no NaN and no infinities), an array index as a natural
  number, a cluster label of a clustering library as an integer.
\<close>

datatype waste_type =
  household | commercial | industrial | street_litter | market_waste | construction
  | medical | electronic

datatype level = low | medium | high | critical

text \<open>A report of \<^verbatim>\<open>typical_reports\<close>; \<open>timestamp\<close> is the date in milliseconds.\<close>

record report =
  timestamp :: real
  severity_score :: real

record environmental_metrics =
  estimated_waste_kg :: real
  co2_emissions :: real
  water_pollution_risk :: level
  air_quality_impact :: level

text \<open>
  \<open>coordinates\<close> is the GeoJSON pair \<^verbatim>\<open>[longitude, latitude]\<close>. The engine reads
  \<^verbatim>\<open>environmental_metrics\<close> with optional chaining, so the field may be absent (\<open>None\<close>);
  an absent \<^verbatim>\<open>typical_reports\<close> behaves as the empty list everywhere it is read.
\<close>

type_synonym coordinate = "real \<times> real"

record hotspot =
  coordinates :: coordinate
  waste_type :: waste_type
  base_severity :: real
  typical_reports :: "report list"
  environmental_metrics :: "environmental_metrics option"

text \<open>The virtual \<^verbatim>\<open>calculated_severity\<close> of the Hotspot schema.\<close>

definition calculated_severity :: "hotspot \<Rightarrow> real" where
  "calculated_severity h =
     (if typical_reports h = [] then base_severity h
      else let reportSeverity = foldl (\<lambda>sum r. sum + severity_score r) 0 (typical_reports h);
               averageReportSeverity = reportSeverity / real (length (typical_reports h))
           in base_severity h * 0.7 + averageReportSeverity * 0.3)"

text \<open>
  \<^verbatim>\<open>h.calculated_severity || h.base_severity\<close>: the left operand unless it is falsy,
  which for a number means zero.
\<close>

definition severity_of :: "hotspot \<Rightarrow> real" where
  "severity_of h = (if calculated_severity h = 0 then base_severity h else calculated_severity h)"

text \<open>
  A cluster object. \<open>name\<close>, \<open>statistics\<close> and \<open>priorityLevel\<close> are attached by
  post-processing and are absent (\<open>None\<close>) before.
\<close>

record statistics =
  totalHotspots :: nat
  averageSeverity :: real
  maxSeverity :: real
  minSeverity :: real
  totalWasteKg :: real
  totalCO2Emissions :: real
  priorityScore :: int

record parameters =
  eps :: "real option"
  minPoints :: "real option"
  k :: "real option"
  iterations :: "real option"
  tolerance :: "real option"
  distance :: "string option"
  linkage :: "string option"
  p_maxClusters :: "real option"

record cluster =
  id_c :: int
  centroid :: coordinate
  memberIndices :: "nat list"
  memberHotspots :: "hotspot list"
  radius :: real
  size_c :: nat
  algorithm :: string
  name :: "string option"
  c_parameters :: "parameters option"
  statistics :: "statistics option"
  priorityLevel :: "level option"

datatype error = Unsupported_algorithm string | TypeError | Library_error

section \<open>Distance, centroid and radius\<close>

text \<open>
  \<^verbatim>\<open>Math.atan2(y, x)\<close> on real numbers: the angle of the point \<open>(x, y)\<close> in
  \<open>(-\<pi>, \<pi>]\<close>, and 0 at the origin.
\<close>

definition atan2 :: "real \<Rightarrow> real \<Rightarrow> real" where
  "atan2 y x =
     (if 0 < x then arctan (y / x)
      else if x < 0 then (if 0 \<le> y then arctan (y / x) + pi else arctan (y / x) - pi)
      else if 0 < y then pi / 2
      else if y < 0 then - (pi / 2)
      else 0)"

text \<open>
  \<^verbatim>\<open>calculateDistance\<close> in exact real arithmetic. The source computes in IEEE doubles, and
  there the two differ at (nearly) antipodal points: the term \<open>a\<close>, which is at most 1 in
  exact arithmetic, can round to a value above 1 (to \<open>1.0000000000000002\<close> for
  \<open>(-87.5, 0)\<close> and \<open>(87.5, -180)\<close>), and then \<^verbatim>\<open>Math.sqrt(1 - a)\<close> and the result are NaN.
  The theorems below use the distance only through the radius field, whose value none of
  them reads, and through its symmetry, which holds in doubles as well.
\<close>

definition calculateDistance :: "real \<Rightarrow> real \<Rightarrow> real \<Rightarrow> real \<Rightarrow> real" where
  "calculateDistance lat1 lon1 lat2 lon2 =
     (let R = 6371000;
          phi1 = lat1 * pi / 180;
          phi2 = lat2 * pi / 180;
          dphi = (lat2 - lat1) * pi / 180;
          dlambda = (lon2 - lon1) * pi / 180;
          a = sin (dphi / 2) * sin (dphi / 2)
              + cos phi1 * cos phi2 * sin (dlambda / 2) * sin (dlambda / 2);
          c = 2 * atan2 (sqrt a) (sqrt (1 - a))
      in R * c)"

definition prepareCoordinates :: "hotspot list \<Rightarrow> coordinate list" where
  "prepareCoordinates hotspots = map (\<lambda>h. (fst (coordinates h), snd (coordinates h))) hotspots"

definition calculateCentroid :: "coordinate list \<Rightarrow> coordinate" where
  "calculateCentroid points =
     (if length points = 0 then (0, 0)
      else let sumLng = foldl (\<lambda>sum point. sum + fst point) 0 points;
               sumLat = foldl (\<lambda>sum point. sum + snd point) 0 points
           in (sumLng / real (length points), sumLat / real (length points)))"

definition calculateClusterRadius :: "coordinate list \<Rightarrow> coordinate \<Rightarrow> real" where
  "calculateClusterRadius points cen =
     (if length points = 0 then 0
      else foldl (\<lambda>maxDistance point.
                    max maxDistance
                      (calculateDistance (snd cen) (fst cen) (snd point) (fst point)))
             0 points)"

section \<open>Turning library labels into cluster objects\<close>

text \<open>
  A JavaScript \<^verbatim>\<open>Map\<close> from cluster id to the list of point indices, as an association
  list in insertion order (the order \<^verbatim>\<open>Map.forEach\<close> visits). \<open>map_push\<close> is
  \<^verbatim>\<open>if (!m.has(k)) m.set(k, []); m.get(k).push(i)\<close>.
\<close>

fun map_push :: "(int \<times> nat list) list \<Rightarrow> int \<Rightarrow> nat \<Rightarrow> (int \<times> nat list) list" where
  "map_push [] clusterId i = [(clusterId, [i])]"
| "map_push ((c, is) # m) clusterId i =
     (if c = clusterId then (c, is @ [i]) # m else (c, is) # map_push m clusterId i)"

text \<open>
  The first loop of \<^verbatim>\<open>processDBSCANResults\<close>: \<^verbatim>\<open>clusters.forEach((clusterId, pointIndex) => ...)\<close>
  with the label \<open>-1\<close> skipped.
\<close>

fun group_dbscan :: "(int \<times> nat list) list \<Rightarrow> int list \<Rightarrow> nat \<Rightarrow> (int \<times> nat list) list" where
  "group_dbscan m [] pointIndex = m"
| "group_dbscan m (clusterId # rest) pointIndex =
     (if clusterId = - 1 then group_dbscan m rest (Suc pointIndex)
      else group_dbscan (map_push m clusterId pointIndex) rest (Suc pointIndex))"

text \<open>
  The body that builds one cluster object from its point indices. \<^verbatim>\<open>coordinates[i]\<close>
  out of range is \<^verbatim>\<open>undefined\<close>, and \<^verbatim>\<open>calculateCentroid\<close> then throws a TypeError at
  \<^verbatim>\<open>point[0]\<close>. \<^verbatim>\<open>hotspots[i]\<close> out of range is \<^verbatim>\<open>undefined\<close> too and makes
  \<^verbatim>\<open>calculateClusterStatistics\<close> throw the same error in post-processing; every caller
  passes \<^verbatim>\<open>coordinates = prepareCoordinates(hotspots)\<close>, so the two lists have one length
  and the model raises at the first of the two places.
\<close>

definition make_cluster ::
  "string \<Rightarrow> coordinate list \<Rightarrow> hotspot list \<Rightarrow> int \<Rightarrow> nat list \<Rightarrow> coordinate option \<Rightarrow> error + cluster" where
  "make_cluster alg coords hotspots clusterId pointIndices given =
     (if list_ex (\<lambda>i. length coords \<le> i \<or> length hotspots \<le> i) pointIndices then Inl TypeError
      else let clusterPoints = map (\<lambda>i. coords ! i) pointIndices;
               clusterHotspots = map (\<lambda>i. hotspots ! i) pointIndices;
               cen = (case given of None \<Rightarrow> calculateCentroid clusterPoints | Some c \<Rightarrow> c);
               rad = calculateClusterRadius clusterPoints cen
           in Inr \<lparr> id_c = clusterId, centroid = (fst cen, snd cen),
                    memberIndices = pointIndices, memberHotspots = clusterHotspots,
                    radius = rad, size_c = length pointIndices, algorithm = alg,
                    name = None, c_parameters = None, statistics = None,
                    priorityLevel = None \<rparr>)"

text \<open>\<^verbatim>\<open>forEach\<close> with a body that may throw: the first error ends the loop.\<close>

fun collect :: "('a \<Rightarrow> error + 'b) \<Rightarrow> 'a list \<Rightarrow> error + 'b list" where
  "collect f [] = Inr []"
| "collect f (x # xs) =
     (case f x of Inl e \<Rightarrow> Inl e
      | Inr y \<Rightarrow> (case collect f xs of Inl e \<Rightarrow> Inl e | Inr ys \<Rightarrow> Inr (y # ys)))"

definition processDBSCANResults ::
  "int list \<Rightarrow> coordinate list \<Rightarrow> hotspot list \<Rightarrow> nat list \<Rightarrow> error + cluster list" where
  "processDBSCANResults clusters coords hotspots noise =
     (let clusterMap = group_dbscan [] clusters 0
      in collect (\<lambda>(clusterId, pointIndices).
                    make_cluster ''dbscan'' coords hotspots clusterId pointIndices None)
           clusterMap)"

text \<open>
  \<^verbatim>\<open>processKMeansResults\<close>: one cluster per library centroid, in centroid order, with the
  points labelled by the centroid's position; a centroid with no point is skipped. The
  centroid of the cluster is the library's.
\<close>

record kmeans_result =
  km_clusters :: "int list"
  km_centroids :: "coordinate list"
  km_converged :: bool

definition kmeans_members :: "int list \<Rightarrow> nat \<Rightarrow> nat list" where
  "kmeans_members clusters clusterId =
     filter (\<lambda>index. clusters ! index = int clusterId) [0 ..< length clusters]"

definition processKMeansResults ::
  "kmeans_result \<Rightarrow> coordinate list \<Rightarrow> hotspot list \<Rightarrow> error + cluster list" where
  "processKMeansResults kmeansResult coords hotspots =
     collect (\<lambda>clusterId.
                make_cluster ''kmeans'' coords hotspots (int clusterId)
                  (kmeans_members (km_clusters kmeansResult) clusterId)
                  (Some (km_centroids kmeansResult ! clusterId)))
       (filter (\<lambda>clusterId. length (kmeans_members (km_clusters kmeansResult) clusterId) \<noteq> 0)
          [0 ..< length (km_centroids kmeansResult)])"

text \<open>\<^verbatim>\<open>processHierarchicalResults\<close>: as for DBSCAN, with no label skipped.\<close>

fun group_hierarchical :: "(int \<times> nat list) list \<Rightarrow> int list \<Rightarrow> nat \<Rightarrow> (int \<times> nat list) list" where
  "group_hierarchical m [] pointIndex = m"
| "group_hierarchical m (clusterId # rest) pointIndex =
     group_hierarchical (map_push m clusterId pointIndex) rest (Suc pointIndex)"

definition processHierarchicalResults ::
  "int list \<Rightarrow> coordinate list \<Rightarrow> hotspot list \<Rightarrow> error + cluster list" where
  "processHierarchicalResults clusters coords hotspots =
     (let clusterMap = group_hierarchical [] clusters 0
      in collect (\<lambda>(clusterId, pointIndices).
                    make_cluster ''hierarchical'' coords hotspots clusterId pointIndices None)
           clusterMap)"

section \<open>Statistics and priority\<close>

text \<open>\<^verbatim>\<open>Math.max(...xs)\<close> and \<^verbatim>\<open>Math.min(...xs)\<close>, used on non-empty lists only.\<close>

definition Math_max :: "real list \<Rightarrow> real" where
  "Math_max xs = foldl max (hd xs) (tl xs)"

definition Math_min :: "real list \<Rightarrow> real" where
  "Math_min xs = foldl min (hd xs) (tl xs)"

text \<open>
  The body of the loop of \<^verbatim>\<open>calculateClusterPriorityScore\<close>; \<open>now\<close> is \<^verbatim>\<open>Date.now()\<close>, the
  clock in milliseconds, taken as the same instant for every hotspot of one call.
\<close>

definition score_step :: "real \<Rightarrow> real \<Rightarrow> hotspot \<Rightarrow> real" where
  "score_step now score h =
     (let severity = severity_of h;
          s1 = score + severity * 2;
          s2 = (if waste_type h \<in> set [medical, electronic, industrial] then s1 + 10 else s1);
          s3 = (if map_option water_pollution_risk (environmental_metrics h) = Some critical
                then s2 + 8 else s2);
          s4 = (if map_option air_quality_impact (environmental_metrics h) = Some critical
                then s3 + 8 else s3)
      in if typical_reports h \<noteq> [] then
           (let latestReport = Math_max (map timestamp (typical_reports h));
                daysSinceReport = (now - latestReport) / (1000 * 60 * 60 * 24)
            in if daysSinceReport \<le> 1 then s4 + 5
               else if daysSinceReport \<le> 7 then s4 + 3
               else s4)
         else s4)"

definition calculateClusterPriorityScore :: "real \<Rightarrow> hotspot list \<Rightarrow> int" where
  "calculateClusterPriorityScore now members =
     min 100 (round (foldl (score_step now) 0 members))"

definition lodash_mean :: "real list \<Rightarrow> real" where
  "lodash_mean xs = sum_list xs / real (length xs)"

definition calculateClusterStatistics :: "real \<Rightarrow> hotspot list \<Rightarrow> statistics" where
  "calculateClusterStatistics now members =
     (if length members = 0 then
        \<lparr> totalHotspots = 0, averageSeverity = 0, maxSeverity = 0, minSeverity = 0,
          totalWasteKg = 0, totalCO2Emissions = 0, priorityScore = 0 \<rparr>
      else let severities = map severity_of members;
               wasteAmounts = map (\<lambda>h. case environmental_metrics h of None \<Rightarrow> 0
                                         | Some m \<Rightarrow> estimated_waste_kg m) members;
               co2Amounts = map (\<lambda>h. case environmental_metrics h of None \<Rightarrow> 0
                                       | Some m \<Rightarrow> co2_emissions m) members
           in \<lparr> totalHotspots = length members,
                averageSeverity = lodash_mean severities,
                maxSeverity = Math_max severities,
                minSeverity = Math_min severities,
                totalWasteKg = sum_list wasteAmounts,
                totalCO2Emissions = sum_list co2Amounts,
                priorityScore = calculateClusterPriorityScore now members \<rparr>)"

definition calculatePriorityLevel :: "statistics \<Rightarrow> level" where
  "calculatePriorityLevel stats =
     (let score = priorityScore stats
      in if score \<ge> 80 then critical
         else if score \<ge> 60 then high
         else if score \<ge> 40 then medium
         else low)"

section \<open>The engine\<close>

text \<open>
  The clustering libraries (\<^verbatim>\<open>ml-dbscan\<close>, \<^verbatim>\<open>ml-kmeans\<close>, \<^verbatim>\<open>ml-hclust\<close>) are npm packages,
  not code of this repository: the model takes them as parameters. A library call may
  throw (\<open>Inl\<close>). DBSCAN returns the label of every point (\<open>-1\<close> for noise) and the
  noise list; k-means returns labels and centroids; the hierarchical tree cut returns
  labels.
\<close>

record library =
  lib_dbscan :: "coordinate list \<Rightarrow> real \<Rightarrow> real \<Rightarrow> error + (int list \<times> nat list)"
  lib_kmeans :: "coordinate list \<Rightarrow> real \<Rightarrow> real \<Rightarrow> real \<Rightarrow> error + kmeans_result"
  lib_hclust_cut :: "coordinate list \<Rightarrow> string \<Rightarrow> string \<Rightarrow> real \<Rightarrow> error + int list"

record result =
  r_algorithm :: string
  r_parameters :: parameters
  clusters :: "cluster list"
  noise :: "nat list option"
  totalClusters :: nat
  converged :: "bool option"

definition no_parameters :: parameters where
  "no_parameters = \<lparr> eps = None, minPoints = None, k = None, iterations = None,
     tolerance = None, distance = None, linkage = None, p_maxClusters = None \<rparr>"

text \<open>A destructuring default: the value of the property, or the default when it is absent.\<close>

definition default_to :: "'a \<Rightarrow> 'a option \<Rightarrow> 'a" where
  "default_to d v = (case v of None \<Rightarrow> d | Some x \<Rightarrow> x)"

definition runDBSCAN ::
  "library \<Rightarrow> coordinate list \<Rightarrow> parameters \<Rightarrow> hotspot list \<Rightarrow> error + result" where
  "runDBSCAN L coords params hotspots =
     (let eps' = default_to 0.01 (eps params);
          minPoints' = default_to 2 (minPoints params)
      in case lib_dbscan L coords eps' minPoints' of
           Inl e \<Rightarrow> Inl e
         | Inr (cls, noise') \<Rightarrow>
             (case processDBSCANResults cls coords hotspots noise' of
                Inl e \<Rightarrow> Inl e
              | Inr clusterResults \<Rightarrow>
                  Inr \<lparr> r_algorithm = ''dbscan'',
                        r_parameters = no_parameters \<lparr> eps := Some eps', minPoints := Some minPoints' \<rparr>,
                        clusters = clusterResults, noise = Some noise',
                        totalClusters = length clusterResults, converged = None \<rparr>))"

text \<open>The default number of clusters of \<^verbatim>\<open>runKMeans\<close>: \<^verbatim>\<open>Math.min(5, Math.ceil(n / 3))\<close>.\<close>

definition kmeans_default_k :: "nat \<Rightarrow> real" where
  "kmeans_default_k n = min 5 (real_of_int \<lceil>real n / 3\<rceil>)"

definition runKMeans ::
  "library \<Rightarrow> coordinate list \<Rightarrow> parameters \<Rightarrow> hotspot list \<Rightarrow> error + result" where
  "runKMeans L coords params hotspots =
     (let k' = default_to (kmeans_default_k (length coords)) (k params);
          iterations' = default_to 100 (iterations params);
          tolerance' = default_to (1 / 10000) (tolerance params)
      in case lib_kmeans L coords k' iterations' tolerance' of
           Inl e \<Rightarrow> Inl e
         | Inr kmeansResult \<Rightarrow>
             (case processKMeansResults kmeansResult coords hotspots of
                Inl e \<Rightarrow> Inl e
              | Inr clusterResults \<Rightarrow>
                  Inr \<lparr> r_algorithm = ''kmeans'',
                        r_parameters = no_parameters \<lparr> k := Some k', iterations := Some iterations',
                                                       tolerance := Some tolerance' \<rparr>,
                        clusters = clusterResults, noise = None,
                        totalClusters = length clusterResults,
                        converged = Some (km_converged kmeansResult) \<rparr>))"

definition runHierarchicalClustering ::
  "library \<Rightarrow> coordinate list \<Rightarrow> parameters \<Rightarrow> hotspot list \<Rightarrow> error + result" where
  "runHierarchicalClustering L coords params hotspots =
     (let distance' = default_to ''euclidean'' (distance params);
          linkage' = default_to ''ward'' (linkage params);
          maxClusters' = default_to (min 8 (real_of_int \<lceil>real (length coords) / 2\<rceil>))
                           (p_maxClusters params)
      in case lib_hclust_cut L coords distance' linkage' maxClusters' of
           Inl e \<Rightarrow> Inl e
         | Inr cls \<Rightarrow>
             (case processHierarchicalResults cls coords hotspots of
                Inl e \<Rightarrow> Inl e
              | Inr clusterResults \<Rightarrow>
                  Inr \<lparr> r_algorithm = ''hierarchical'',
                        r_parameters = no_parameters \<lparr> distance := Some distance',
                                                       linkage := Some linkage',
                                                       p_maxClusters := Some maxClusters' \<rparr>,
                        clusters = clusterResults, noise = None,
                        totalClusters = length clusterResults, converged = None \<rparr>))"

definition createSingleClusterResult :: "hotspot list \<Rightarrow> result" where
  "createSingleClusterResult hotspots =
     (if length hotspots = 0 then
        \<lparr> r_algorithm = ''none'', r_parameters = no_parameters, clusters = [], noise = None,
          totalClusters = 0, converged = None \<rparr>
      else let coords = prepareCoordinates hotspots;
               cen = calculateCentroid coords;
               rad = calculateClusterRadius coords cen
           in \<lparr> r_algorithm = ''single'', r_parameters = no_parameters,
                clusters = [\<lparr> id_c = 0, centroid = (fst cen, snd cen),
                              memberIndices = [0 ..< length hotspots],
                              memberHotspots = hotspots, radius = rad,
                              size_c = length hotspots, algorithm = ''single'',
                              name = None, c_parameters = None, statistics = None,
                              priorityLevel = None \<rparr>],
                noise = None, totalClusters = 1, converged = None \<rparr>)"

text \<open>Decimal digits of an index, for the template string \<^verbatim>\<open>`Cluster ${index + 1}`\<close>.\<close>

fun string_of_nat :: "nat \<Rightarrow> string" where
  "string_of_nat n =
     (if n < 10 then [char_of (48 + n)]
      else string_of_nat (n div 10) @ [char_of (48 + n mod 10)])"

text \<open>
  \<^verbatim>\<open>postProcessClusters\<close>. \<^verbatim>\<open>Array.prototype.sort\<close> with the comparator
  \<^verbatim>\<open>(a, b) => b.size - a.size\<close> is a stable sort by descending size; \<open>sort_key\<close> is the
  stable insertion sort, here on the negated size.
\<close>

definition annotate :: "real \<Rightarrow> string \<Rightarrow> parameters \<Rightarrow> nat \<Rightarrow> cluster \<Rightarrow> cluster" where
  "annotate now alg params index c =
     (let stats = calculateClusterStatistics now (memberHotspots c)
      in c \<lparr> name := Some (''Cluster '' @ string_of_nat (index + 1)),
             algorithm := alg,
             c_parameters := Some params,
             statistics := Some stats,
             priorityLevel := Some (calculatePriorityLevel stats) \<rparr>)"

definition postProcessClusters ::
  "real \<Rightarrow> result \<Rightarrow> hotspot list \<Rightarrow> string \<Rightarrow> parameters \<Rightarrow> result" where
  "postProcessClusters now res hotspots alg params =
     (let sorted_clusters = sort_key (\<lambda>c. - int (size_c c)) (clusters res)
      in res \<lparr> clusters :=
                 map (\<lambda>(index, c). annotate now alg params index c)
                   (zip [0 ..< length sorted_clusters] sorted_clusters) \<rparr>)"

text \<open>
  The options of \<^verbatim>\<open>runClustering\<close>; an absent property takes the default of the
  destructuring pattern.
\<close>

record options =
  o_algorithm :: "string option"
  o_parameters :: "parameters option"
  minClusterSize :: "real option"
  maxClusters :: "real option"

text \<open>
  \<^verbatim>\<open>this.algorithms[algorithm]\<close> is a property lookup on a plain object: besides the three
  registered functions it finds the properties every object inherits from
  \<^verbatim>\<open>Object.prototype\<close>, all of them truthy. Calling one of those in place of a clustering
  function ends in a TypeError (it is not callable, or throws on its arguments, or
  returns a value with no \<^verbatim>\<open>clusters\<close> array for post-processing to sort).
\<close>

definition object_prototype_names :: "string list" where
  "object_prototype_names =
     [''constructor'', ''hasOwnProperty'', ''isPrototypeOf'', ''propertyIsEnumerable'',
      ''toLocaleString'', ''toString'', ''valueOf'', ''__proto__'', ''__defineGetter__'',
      ''__defineSetter__'', ''__lookupGetter__'', ''__lookupSetter__'']"

definition run_algorithm ::
  "library \<Rightarrow> string \<Rightarrow> coordinate list \<Rightarrow> parameters \<Rightarrow> hotspot list \<Rightarrow> error + result" where
  "run_algorithm L alg coords params hotspots =
     (if alg = ''dbscan'' then runDBSCAN L coords params hotspots
      else if alg = ''kmeans'' then runKMeans L coords params hotspots
      else if alg = ''hierarchical'' then runHierarchicalClustering L coords params hotspots
      else Inl TypeError)"

definition runClustering ::
  "library \<Rightarrow> real \<Rightarrow> hotspot list \<Rightarrow> 'a options_scheme \<Rightarrow> error + result" where
  "runClustering L now hotspots opts =
     (let alg = default_to ''dbscan'' (o_algorithm opts);
          params = default_to no_parameters (o_parameters opts);
          minClusterSize' = default_to 2 (minClusterSize opts)
      in if alg \<notin> set [''dbscan'', ''kmeans'', ''hierarchical''] \<union> set object_prototype_names
         then Inl (Unsupported_algorithm alg)
         else let coords = prepareCoordinates hotspots
              in if real (length coords) < minClusterSize' then Inr (createSingleClusterResult hotspots)
                 else (case run_algorithm L alg coords params hotspots of
                         Inl e \<Rightarrow> Inl e
                       | Inr res \<Rightarrow> Inr (postProcessClusters now res hotspots alg params)))"

section \<open>The clustering route\<close>











section \<open>The route optimizer\<close>

text \<open>
  Modelled from the spec: the route optimizer (\<^verbatim>\<open>backend/route_optimizer.py\<close>) is not among the sources. A node to visit (a cluster centroid with its id), a node of the returned
  route with its 0-based \<open>order\<close>, and the route with its total distance.
\<close>

record node =
  n_id :: string
  n_lat :: real
  n_lng :: real

record route_node = node +
  n_order :: nat

record route =
  route_nodes :: "route_node list"
  total_distance_m :: real

text \<open>
  Modelled from the spec: the route optimizer (\<^verbatim>\<open>backend/route_optimizer.py\<close>) is not among the sources. A coordinate as the pair (latitude, longitude), the position of a node,
  and the distance of two positions by the distance utility.
\<close>

type_synonym position = "real \<times> real"

definition node_position :: "node \<Rightarrow> position" where
  "node_position n = (n_lat n, n_lng n)"

definition distance_m :: "position \<Rightarrow> position \<Rightarrow> real" where
  "distance_m a b = calculateDistance (fst a) (snd a) (fst b) (snd b)"

text \<open>
  Modelled from the spec: the route optimizer (\<^verbatim>\<open>backend/route_optimizer.py\<close>) is not among the sources. The sum of all traversed leg distances along a list of positions.
\<close>

fun path_length :: "position list \<Rightarrow> real" where
  "path_length (a # b # rest) = distance_m a b + path_length (b # rest)"
| "path_length [a] = 0"
| "path_length [] = 0"

text \<open>
  Modelled from the spec: the route optimizer (\<^verbatim>\<open>backend/route_optimizer.py\<close>) is not among the sources. The total distance of a visiting order: the legs between consecutive
  nodes, and the leg from the start to the first node when a start is given.
\<close>

definition route_distance :: "position option \<Rightarrow> node list \<Rightarrow> real" where
  "route_distance start r =
     path_length (case start of None \<Rightarrow> map node_position r
                  | Some s \<Rightarrow> s # map node_position r)"

text \<open>
  Modelled from the spec: the route optimizer (\<^verbatim>\<open>backend/route_optimizer.py\<close>) is not among the sources. The nearest of the unvisited nodes \<open>x # xs\<close> to the current position,
  with the other nodes in input order; of two nodes at the same distance the earlier in
  input order is taken.
\<close>

fun extract_nearest :: "position \<Rightarrow> node \<Rightarrow> node list \<Rightarrow> node \<times> node list" where
  "extract_nearest cur x [] = (x, [])"
| "extract_nearest cur x (y # ys) =
     (let (b, rest) = extract_nearest cur y ys
      in if distance_m cur (node_position x) \<le> distance_m cur (node_position b)
         then (x, y # ys) else (b, x # rest))"

text \<open>
  Modelled from the spec: the route optimizer (\<^verbatim>\<open>backend/route_optimizer.py\<close>) is not among the sources. Repeatedly select the nearest unvisited node to the current position,
  append it and mark it visited, until all nodes are visited.
\<close>

function nn_visit :: "position \<Rightarrow> node list \<Rightarrow> node list" where
  "nn_visit cur [] = []"
| "nn_visit cur (x # xs) =
     (let (b, rest) = extract_nearest cur x xs in b # nn_visit (node_position b) rest)"
  by pat_completeness auto
termination
proof (relation "measure (\<lambda>(cur, remaining). length remaining)", goal_cases)
  case 1
  show ?case by simp
next
  case (2 cur x xs p b rest)
  have len: "length (snd (extract_nearest c y ys)) = length ys" for c y ys
  proof (induction ys arbitrary: y)
    case Nil
    show ?case by simp
  next
    case (Cons z zs)
    from Cons [of z] show ?case
      by (cases "extract_nearest c z zs") (simp add: Let_def)
  qed
  from 2 have "rest = snd (extract_nearest cur x xs)" by (metis snd_conv)
  then show ?case by (simp add: len)
qed

text \<open>
  Modelled from the spec: the route optimizer (\<^verbatim>\<open>backend/route_optimizer.py\<close>) is not among the sources. The nearest-neighbour construction: the empty route for no nodes; with a
  start, the first leg goes from the start to the nearest node; without one, the
  traversal begins at the first node in input order.
\<close>

definition nearest_neighbor_route :: "node list \<Rightarrow> position option \<Rightarrow> node list" where
  "nearest_neighbor_route nodes start =
     (case nodes of [] \<Rightarrow> []
      | first # others \<Rightarrow>
          (case start of Some s \<Rightarrow> nn_visit s nodes
           | None \<Rightarrow> first # nn_visit (node_position first) others))"

text \<open>
  Modelled from the spec: the route optimizer (\<^verbatim>\<open>backend/route_optimizer.py\<close>) is not among the sources. The distance delta of reversing the segment between the edges
  \<open>(i, i + 1)\<close> and \<open>(j, j + 1)\<close>: the two new edges minus the two edges they replace.
\<close>

definition two_opt_delta :: "node list \<Rightarrow> nat \<Rightarrow> nat \<Rightarrow> real" where
  "two_opt_delta r i j =
     distance_m (node_position (r ! i)) (node_position (r ! j))
     + distance_m (node_position (r ! (i + 1))) (node_position (r ! (j + 1)))
     - distance_m (node_position (r ! i)) (node_position (r ! (i + 1)))
     - distance_m (node_position (r ! j)) (node_position (r ! (j + 1)))"

text \<open>
  Modelled from the spec: the route optimizer (\<^verbatim>\<open>backend/route_optimizer.py\<close>) is not among the sources. The route with the segment between the two edges, the nodes
  \<open>i + 1, \<dots>, j\<close>, reversed.
\<close>

definition reverse_segment :: "node list \<Rightarrow> nat \<Rightarrow> nat \<Rightarrow> node list" where
  "reverse_segment r i j = take (i + 1) r @ rev (take (j - i) (drop (i + 1) r)) @ drop (j + 1) r"

text \<open>
  Modelled from the spec: the route optimizer (\<^verbatim>\<open>backend/route_optimizer.py\<close>) is not among the sources. All pairs of non-adjacent edges \<open>(i, i + 1)\<close> and \<open>(j, j + 1)\<close> of a
  route of \<open>n\<close> nodes, in scanning order.
\<close>

definition edge_pairs :: "nat \<Rightarrow> (nat \<times> nat) list" where
  "edge_pairs n = concat (map (\<lambda>i. map (\<lambda>j. (i, j)) [i + 2 ..< n - 1]) [0 ..< n])"

text \<open>
  Modelled from the spec: the route optimizer (\<^verbatim>\<open>backend/route_optimizer.py\<close>) is not among the sources. One pair of the scan: the reversal is applied if and only if it strictly
  reduces the total distance, and the scan continues from the next pair.
\<close>

definition two_opt_step :: "node list \<Rightarrow> nat \<times> nat \<Rightarrow> node list" where
  "two_opt_step r p = (if two_opt_delta r (fst p) (snd p) < 0 then reverse_segment r (fst p) (snd p) else r)"

text \<open>
  Modelled from the spec: the route optimizer (\<^verbatim>\<open>backend/route_optimizer.py\<close>) is not among the sources. The single full pass over all edge pairs.
\<close>

definition two_opt_pass :: "node list \<Rightarrow> node list" where
  "two_opt_pass r = foldl two_opt_step r (edge_pairs (length r))"

text \<open>
  Modelled from the spec: the route optimizer (\<^verbatim>\<open>backend/route_optimizer.py\<close>) is not among the sources. The \<open>order\<close> fields, assigned to match the final sequence.
\<close>

definition with_order :: "node list \<Rightarrow> route_node list" where
  "with_order r = map (\<lambda>(n, i). node.extend n \<lparr> n_order = i \<rparr>) (zip r [0 ..< length r])"

text \<open>
  Modelled from the spec: the route optimizer (\<^verbatim>\<open>backend/route_optimizer.py\<close>) is not among the sources. \<^verbatim>\<open>optimize_route\<close>: the nearest-neighbour route, improved by the single 2-opt
  pass when there are at least 4 nodes, with its total distance.
\<close>

definition optimize_route :: "node list \<Rightarrow> position option \<Rightarrow> route" where
  "optimize_route nodes start =
     (let r0 = nearest_neighbor_route nodes start;
          r = (if 4 \<le> length nodes then two_opt_pass r0 else r0)
      in \<lparr> route_nodes = with_order r, total_distance_m = route_distance start r \<rparr>)"

section \<open>The formulas of the specification\<close>

text \<open>
  These definitions follow the words of the specification, not the source; the theorems
  below compare them with what the engine computes. The aggregate severity
  \<open>round(\<Sigma>(s\<^sub>i \<cdot> s\<^sub>i) / \<Sigma>(s\<^sub>i))\<close> clamped to \<open>[1, 10]\<close>; the severity-weighted mean of the
  member coordinates; the number of clusters \<open>clamp(round(sqrt(n / 2)), 2, 5)\<close>; and the
  order of the returned clusters (descending member count, then descending aggregate
  severity, then ascending centroid latitude), with the average severity of the cluster's
  statistics as its aggregate severity.
\<close>

definition spec_aggregate_severity :: "hotspot list \<Rightarrow> int" where
  "spec_aggregate_severity members =
     max 1 (min 10 (round (sum_list (map (\<lambda>h. severity_of h * severity_of h) members)
                            / sum_list (map severity_of members))))"

definition spec_weighted_centroid :: "hotspot list \<Rightarrow> coordinate" where
  "spec_weighted_centroid members =
     (sum_list (map (\<lambda>h. severity_of h * fst (coordinates h)) members)
        / sum_list (map severity_of members),
      sum_list (map (\<lambda>h. severity_of h * snd (coordinates h)) members)
        / sum_list (map severity_of members))"

definition spec_kmeans_k :: "nat \<Rightarrow> int" where
  "spec_kmeans_k n = max 2 (min 5 (round (sqrt (real n / 2))))"

definition cluster_severity :: "cluster \<Rightarrow> real" where
  "cluster_severity c = (case statistics c of None \<Rightarrow> 0 | Some s \<Rightarrow> averageSeverity s)"

definition spec_cluster_order :: "cluster \<Rightarrow> cluster \<Rightarrow> bool" where
  "spec_cluster_order a b =
     (size_c a > size_c b
      \<or> (size_c a = size_c b
         \<and> (cluster_severity a > cluster_severity b
            \<or> (cluster_severity a = cluster_severity b \<and> snd (centroid a) \<le> snd (centroid b)))))"

text \<open>The fields of a cluster object that post-processing leaves as they are.\<close>

definition core :: "cluster \<Rightarrow> int \<times> coordinate \<times> nat list \<times> hotspot list \<times> real \<times> nat" where
  "core c = (id_c c, centroid c, memberIndices c, memberHotspots c, radius c, size_c c)"

section \<open>Example inputs\<close>

text \<open>
  A hotspot document at a position with a base severity, no reports and the schema's
  defaults elsewhere; the options object \<^verbatim>\<open>{}\<close>; and a stand-in for the clustering
  libraries that answers DBSCAN and the tree cut with a given list of labels. They are the
  inputs of the concrete evaluations below.
\<close>

definition hotspot_at :: "real \<Rightarrow> real \<Rightarrow> real \<Rightarrow> hotspot" where
  "hotspot_at lng lat sev =
     \<lparr> coordinates = (lng, lat), waste_type = household, base_severity = sev,
       typical_reports = [],
       environmental_metrics = Some \<lparr> estimated_waste_kg = 0, co2_emissions = 0,
                                      water_pollution_risk = low, air_quality_impact = low \<rparr> \<rparr>"

definition default_options :: options where
  "default_options =
     \<lparr> o_algorithm = None, o_parameters = None, minClusterSize = None, maxClusters = None \<rparr>"

definition scripted_library :: "int list \<Rightarrow> library" where
  "scripted_library labels =
     \<lparr> lib_dbscan = (\<lambda>coords e m. Inr (labels, filter (\<lambda>i. labels ! i = - 1) [0 ..< length labels])),
       lib_kmeans = (\<lambda>coords k' it tol. Inl Library_error),
       lib_hclust_cut = (\<lambda>coords d l n. Inr labels) \<rparr>"

definition scripted_kmeans_library :: "int list \<Rightarrow> coordinate list \<Rightarrow> library" where
  "scripted_kmeans_library labels cents =
     \<lparr> lib_dbscan = (\<lambda>coords e m. Inl Library_error),
       lib_kmeans = (\<lambda>coords k' it tol.
          Inr \<lparr> km_clusters = labels, km_centroids = cents, km_converged = True \<rparr>),
       lib_hclust_cut = (\<lambda>coords d l n. Inl Library_error) \<rparr>"

section \<open>Grouping lemmas\<close>

lemma map_push_members:
  "mset (concat (map snd (map_push m c i))) = mset (concat (map snd m)) + {#i#}"
  by (induction m c i rule: map_push.induct) auto

lemma upt_0_Suc_shift: "[0 ..< Suc n] = 0 # map Suc [0 ..< n]"
  by (simp add: upt_conv_Cons map_Suc_upt del: upt_Suc)

lemma group_dbscan_members:
  "mset (concat (map snd (group_dbscan m ls i))) =
     mset (concat (map snd m)) + mset (map (\<lambda>j. j + i) (filter (\<lambda>j. ls ! j \<noteq> - 1) [0 ..< length ls]))"
proof (induction m ls i rule: group_dbscan.induct)
  case (1 m pointIndex)
  then show ?case by simp
next
  case (2 m clusterId rest pointIndex)
  have sh: "[0 ..< length (clusterId # rest)] = 0 # map Suc [0 ..< length rest]"
    using upt_0_Suc_shift [of "length rest"] by simp
  show ?case
  proof (cases "clusterId = - 1")
    case True
    with 2 show ?thesis
      unfolding sh by (simp add: filter_map comp_def)
  next
    case False
    with 2 show ?thesis
      unfolding sh by (simp add: filter_map comp_def map_push_members)
  qed
qed

lemma collect_elem:
  "collect f xs = Inr ys \<Longrightarrow> y \<in> set ys \<Longrightarrow> \<exists>x\<in>set xs. f x = Inr y"
  by (induction xs arbitrary: ys) (auto split: sum.splits)

lemma collect_total:
  "\<forall>x\<in>set xs. \<exists>y. f x = Inr y \<Longrightarrow> \<exists>ys. collect f xs = Inr ys"
proof (induction xs)
  case Nil
  then show ?case by simp
next
  case (Cons x xs)
  then obtain y ys where "f x = Inr y" "collect f xs = Inr ys" by auto
  then show ?case by simp
qed

lemma make_cluster_Inr:
  assumes "make_cluster alg cs hs cid pis g = Inr c"
  shows "memberIndices c = pis" "memberHotspots c = map (\<lambda>i. hs ! i) pis"
    "size_c c = length pis" "id_c c = cid"
    "centroid c = (case g of None \<Rightarrow> calculateCentroid (map (\<lambda>i. cs ! i) pis) | Some x \<Rightarrow> x)"
    "\<forall>i\<in>set pis. i < length cs \<and> i < length hs"
  using assms by (auto simp: make_cluster_def Let_def list_ex_iff split: if_splits)

lemma make_cluster_total:
  assumes "\<forall>i\<in>set pis. i < length cs \<and> i < length hs"
  shows "\<exists>c. make_cluster alg cs hs cid pis g = Inr c"
  using assms by (auto simp: make_cluster_def Let_def list_ex_iff)

lemma collect_members:
  assumes "collect (\<lambda>(cid, pis). make_cluster alg cs hs cid pis None) m = Inr ys"
  shows "map memberIndices ys = map snd m"
  using assms
proof (induction m arbitrary: ys)
  case Nil
  then show ?case by simp
next
  case (Cons p m)
  then show ?case
    by (cases p) (auto split: sum.splits dest: make_cluster_Inr(1))
qed


lemma group_dbscan_bound:
  "set (concat (map snd (group_dbscan [] ls 0))) \<subseteq> {0 ..< length ls}"
proof -
  have "set (concat (map snd (group_dbscan [] ls 0))) = set_mset (mset (concat (map snd (group_dbscan [] ls 0))))"
    by simp
  also have "\<dots> = set (filter (\<lambda>j. ls ! j \<noteq> - 1) [0 ..< length ls])"
    unfolding group_dbscan_members by simp
  finally show ?thesis by auto
qed

lemma dbscan_members:
  assumes "length coords = length hotspots" and "length labels = length hotspots"
  shows "\<exists>cs. processDBSCANResults labels coords hotspots ns = Inr cs
          \<and> mset (concat (map memberIndices cs)) = mset (filter (\<lambda>i. labels ! i \<noteq> - 1) [0 ..< length labels])
          \<and> (\<forall>c\<in>set cs. memberHotspots c = map (\<lambda>i. hotspots ! i) (memberIndices c))"
proof -
  let ?m = "group_dbscan [] labels 0"
  let ?f = "\<lambda>(cid, pis). make_cluster ''dbscan'' coords hotspots cid pis None"
  have "\<forall>p\<in>set ?m. \<exists>c. ?f p = Inr c"
  proof
    fix p assume p: "p \<in> set ?m"
    obtain cid pis where [simp]: "p = (cid, pis)" by (cases p)
    have "set pis \<subseteq> set (concat (map snd ?m))" using p by force
    with group_dbscan_bound [of labels] have "set pis \<subseteq> {0 ..< length labels}" by blast
    with assms have "\<forall>i\<in>set pis. i < length coords \<and> i < length hotspots" by auto
    from make_cluster_total [OF this] show "\<exists>c. ?f p = Inr c" by simp
  qed
  from collect_total [OF this] obtain cs where cs: "collect ?f ?m = Inr cs" ..
  have mi: "map memberIndices cs = map snd ?m" by (rule collect_members [OF cs])
  have "\<forall>c\<in>set cs. memberHotspots c = map (\<lambda>i. hotspots ! i) (memberIndices c)"
  proof
    fix c assume "c \<in> set cs"
    from collect_elem [OF cs this] obtain cid pis
      where "make_cluster ''dbscan'' coords hotspots cid pis None = Inr c" by auto
    from make_cluster_Inr(1,2) [OF this]
    show "memberHotspots c = map (\<lambda>i. hotspots ! i) (memberIndices c)" by simp
  qed
  with cs mi show ?thesis
    by (simp add: processDBSCANResults_def group_dbscan_members)
qed


lemma map_annotate_zip:
  assumes "\<And>i c. f (annotate now alg params i c) = f c" and "length ns = length xs"
  shows "map f (map (\<lambda>(index, c). annotate now alg params index c) (zip ns xs)) = map f xs"
proof -
  have "map f (map (\<lambda>(index, c). annotate now alg params index c) (zip ns xs))
        = map (\<lambda>p. f (snd p)) (zip ns xs)"
    by (simp add: assms(1) split_def comp_def)
  also have "\<dots> = map f (map snd (zip ns xs))" by (simp add: comp_def)
  also have "\<dots> = map f xs" using assms(2) by (simp add: map_snd_zip)
  finally show ?thesis .
qed

lemma mset_concat_map:
  "mset (concat (map f xs)) = (\<Sum>x\<in>#mset xs. mset (f x))"
  by (induction xs) simp_all

lemma mset_concat_perm:
  "mset xs = mset ys \<Longrightarrow> mset (concat (map f xs)) = mset (concat (map f ys))"
  by (simp add: mset_concat_map)

lemma annotate_fields [simp]:
  "memberIndices (annotate now alg params i c) = memberIndices c"
  "memberHotspots (annotate now alg params i c) = memberHotspots c"
  "size_c (annotate now alg params i c) = size_c c"
  "id_c (annotate now alg params i c) = id_c c"
  "centroid (annotate now alg params i c) = centroid c"
  "radius (annotate now alg params i c) = radius c"
  "statistics (annotate now alg params i c) = Some (calculateClusterStatistics now (memberHotspots c))"
  "priorityLevel (annotate now alg params i c) =
     Some (calculatePriorityLevel (calculateClusterStatistics now (memberHotspots c)))"
  by (simp_all add: annotate_def Let_def)

lemma postProcess_map:
  assumes "\<And>i c. f (annotate now alg params i c) = f c"
  shows "map f (clusters (postProcessClusters now res hs alg params)) =
         map f (sort_key (\<lambda>c. - int (size_c c)) (clusters res))"
  using map_annotate_zip [of f now alg params "[0 ..< length (sort_key (\<lambda>c. - int (size_c c)) (clusters res))]"
      "sort_key (\<lambda>c. - int (size_c c)) (clusters res)", OF assms]
  by (simp add: postProcessClusters_def Let_def)

lemma postProcess_elem:
  assumes "c \<in> set (clusters (postProcessClusters now res hs alg params))"
  shows "\<exists>i c0. c0 \<in> set (clusters res) \<and> c = annotate now alg params i c0"
proof -
  from assms obtain i c0 where "(i, c0) \<in> set (zip [0 ..< length (sort_key (\<lambda>c. - int (size_c c)) (clusters res))] (sort_key (\<lambda>c. - int (size_c c)) (clusters res)))"
    and c: "c = annotate now alg params i c0"
    by (auto simp: postProcessClusters_def Let_def)
  then have "c0 \<in> set (sort_key (\<lambda>c. - int (size_c c)) (clusters res))"
    by (meson set_zip_rightD)
  with c show ?thesis by auto
qed

lemma hotspot_at_severity [simp]: "severity_of (hotspot_at lng lat sev) = sev"
  by (simp add: severity_of_def calculated_severity_def hotspot_at_def)

lemma hotspot_at_coordinates [simp]: "coordinates (hotspot_at lng lat sev) = (lng, lat)"
  by (simp add: hotspot_at_def)

lemma sum_list_bounds:
  fixes xs :: "real list"
  assumes "xs \<noteq> []" and "\<forall>x\<in>set xs. lo \<le> x \<and> x \<le> hi"
  shows "lo * real (length xs) \<le> sum_list xs \<and> sum_list xs \<le> hi * real (length xs)"
  using assms
proof (induction xs rule: list_nonempty_induct)
  case (single x)
  then show ?case by simp
next
  case (cons x xs)
  then show ?case by (simp add: algebra_simps)
qed

lemma foldl_add_sum_list: "foldl (\<lambda>sum x. sum + f x) (a :: real) xs = a + sum_list (map f xs)"
  by (induction xs arbitrary: a) simp_all

lemma calculateCentroid_mean:
  "points \<noteq> [] \<Longrightarrow> calculateCentroid points =
     (sum_list (map fst points) / real (length points), sum_list (map snd points) / real (length points))"
  by (simp add: calculateCentroid_def Let_def foldl_add_sum_list)

lemma make_cluster_centroid:
  assumes "make_cluster alg (prepareCoordinates hs) hs cid pis None = Inr c" and "memberHotspots c \<noteq> []"
  shows "centroid c = (sum_list (map (\<lambda>h. fst (coordinates h)) (memberHotspots c)) / real (length (memberHotspots c)),
                       sum_list (map (\<lambda>h. snd (coordinates h)) (memberHotspots c)) / real (length (memberHotspots c)))"
proof -
  have in_range: "\<forall>i\<in>set pis. i < length hs"
    using make_cluster_Inr(6) [OF assms(1)] by simp
  have mh: "memberHotspots c = map (\<lambda>i. hs ! i) pis" by (rule make_cluster_Inr(2) [OF assms(1)])
  have pts: "map (\<lambda>i. prepareCoordinates hs ! i) pis = map (\<lambda>h. (fst (coordinates h), snd (coordinates h))) (memberHotspots c)"
    using in_range by (simp add: mh prepareCoordinates_def)
  have "centroid c = calculateCentroid (map (\<lambda>i. prepareCoordinates hs ! i) pis)"
    using make_cluster_Inr(5) [OF assms(1)] by simp
  also have "\<dots> = calculateCentroid (map (\<lambda>h. (fst (coordinates h), snd (coordinates h))) (memberHotspots c))"
    by (simp only: pts)
  finally show ?thesis
    using assms(2) by (simp add: calculateCentroid_mean comp_def)
qed

lemma ceiling_third: "\<lceil>real n / 3\<rceil> = (int n + 2) div 3"
proof -
  have "\<lceil>real n / 3\<rceil> = \<lceil>real_of_int (int n) / real_of_int 3\<rceil>" by simp
  also have "\<dots> = - ((- int n) div 3)" by (simp only: ceiling_divide_eq_div)
  also have "\<dots> = (int n + 2) div 3" by presburger
  finally show ?thesis .
qed

lemma kmeans_default_k_int: "kmeans_default_k n = real_of_int (min 5 ((int n + 2) div 3))"
  by (simp add: kmeans_default_k_def ceiling_third)

lemma sorted_desc_size:
  "sorted_wrt (\<lambda>a b. size_c b \<le> size_c a) (sort_key (\<lambda>c. - int (size_c c)) cs)"
proof -
  have "sorted (map (\<lambda>c. - int (size_c c)) (sort_key (\<lambda>c. - int (size_c c)) cs))"
    by (rule sorted_sort_key)
  then show ?thesis by (simp add: sorted_map)
qed

section \<open>C1: which points the DBSCAN path returns\<close>

text \<open>
  C1 (as stated: every input point is a member of exactly one returned cluster, a noise
  point as a singleton cluster). The engine does otherwise: \<^verbatim>\<open>processDBSCANResults\<close>
  skips the label \<open>-1\<close>. With DBSCAN labels \<open>[0, 0, -1]\<close> for three points (two next to
  each other, one far away) the engine returns one cluster with the members 0 and 1, and
  point 2 is in no cluster.
\<close>

theorem C1_noise_point_dropped:
  "map_sum id (\<lambda>r. map memberIndices (clusters r))
     (runClustering (scripted_library [0, 0, - 1]) 0
        [hotspot_at 0 0 5, hotspot_at 0 0.001 5, hotspot_at 50 50 5] default_options)
   = Inr [[0, 1]]"
  by (simp add: runClustering_def default_options_def default_to_def scripted_library_def
      run_algorithm_def runDBSCAN_def object_prototype_names_def
      processDBSCANResults_def make_cluster_def prepareCoordinates_def Let_def
      postProcessClusters_def)

text \<open>
  C1 (amended): when the engine runs DBSCAN and the library labels every input point, the
  engine returns a result whose clusters have as members exactly the points with a label
  other than \<open>-1\<close>, each one once (as multisets of indices), and each cluster's member
  hotspots are the input hotspots at its member indices. Points labelled as noise are in
  no cluster.
\<close>

theorem C1_dbscan_members:
  assumes alg: "default_to ''dbscan'' (o_algorithm opts) = ''dbscan''"
    and big: "\<not> real (length hotspots) < default_to 2 (minClusterSize opts)"
    and lib: "lib_dbscan L (prepareCoordinates hotspots)
                (default_to 0.01 (eps (default_to no_parameters (o_parameters opts))))
                (default_to 2 (minPoints (default_to no_parameters (o_parameters opts))))
              = Inr (labels, ns)"
    and len: "length labels = length hotspots"
  shows "\<exists>r. runClustering L now hotspots opts = Inr r
          \<and> mset (concat (map memberIndices (clusters r)))
              = mset (filter (\<lambda>i. labels ! i \<noteq> - 1) [0 ..< length hotspots])
          \<and> (\<forall>c\<in>set (clusters r). memberHotspots c = map (\<lambda>i. hotspots ! i) (memberIndices c))"
proof -
  let ?coords = "prepareCoordinates hotspots"
  let ?params = "default_to no_parameters (o_parameters opts)"
  have lc: "length ?coords = length hotspots" by (simp add: prepareCoordinates_def)
  from dbscan_members [OF lc len, of ns] obtain cs
    where cs: "processDBSCANResults labels ?coords hotspots ns = Inr cs"
      and ms: "mset (concat (map memberIndices cs)) = mset (filter (\<lambda>i. labels ! i \<noteq> - 1) [0 ..< length labels])"
      and hs: "\<forall>c\<in>set cs. memberHotspots c = map (\<lambda>i. hotspots ! i) (memberIndices c)"
    by blast
  define res where "res = \<lparr> r_algorithm = ''dbscan'',
      r_parameters = no_parameters \<lparr> eps := Some (default_to 0.01 (eps ?params)),
                                     minPoints := Some (default_to 2 (minPoints ?params)) \<rparr>,
      clusters = cs, noise = Some ns, totalClusters = length cs, converged = None \<rparr>"
  have run: "runDBSCAN L ?coords ?params hotspots = Inr res"
    using lib cs by (simp add: runDBSCAN_def Let_def res_def)
  let ?out = "postProcessClusters now res hotspots ''dbscan'' ?params"
  have rc: "runClustering L now hotspots opts = Inr ?out"
    using alg big run lc by (simp add: runClustering_def Let_def run_algorithm_def)
  have "map memberIndices (clusters ?out) = map memberIndices (sort_key (\<lambda>c. - int (size_c c)) cs)"
    using postProcess_map [of memberIndices now "''dbscan''" ?params res hotspots]
    by (simp add: res_def)
  then have "mset (concat (map memberIndices (clusters ?out))) = mset (concat (map memberIndices cs))"
    using mset_concat_perm [of "sort_key (\<lambda>c. - int (size_c c)) cs" cs memberIndices] by simp
  moreover have "\<forall>c\<in>set (clusters ?out). memberHotspots c = map (\<lambda>i. hotspots ! i) (memberIndices c)"
  proof
    fix c assume "c \<in> set (clusters ?out)"
    from postProcess_elem [OF this] hs show "memberHotspots c = map (\<lambda>i. hotspots ! i) (memberIndices c)"
      by (auto simp: res_def)
  qed
  ultimately show ?thesis using rc ms len by simp
qed

theorem C1_dbscan_members_witness:
  "\<exists>r. runClustering (scripted_library [0, 0, - 1]) 0
          [hotspot_at 0 0 5, hotspot_at 0 0.001 5, hotspot_at 50 50 5] default_options = Inr r
      \<and> mset (concat (map memberIndices (clusters r)))
          = mset (filter (\<lambda>i. [0, 0, - 1 :: int] ! i \<noteq> - 1)
                   [0 ..< length [hotspot_at 0 0 5, hotspot_at 0 0.001 5, hotspot_at 50 50 5]])
      \<and> (\<forall>c\<in>set (clusters r).
            memberHotspots c
              = map (\<lambda>i. [hotspot_at 0 0 5, hotspot_at 0 0.001 5, hotspot_at 50 50 5] ! i)
                  (memberIndices c))"
  by (rule C1_dbscan_members [where ns = "[2]"])
    (simp_all add: default_options_def default_to_def scripted_library_def no_parameters_def)

section \<open>C2: the severity attached to a cluster\<close>

text \<open>
  C2 (as stated: the cluster's aggregate severity is \<open>round(\<Sigma>(s\<^sub>i \<cdot> s\<^sub>i) / \<Sigma>(s\<^sub>i))\<close>, clamped
  to \<open>[1, 10]\<close>). The statistics of the engine carry the plain average instead: for
  two members of severity 8 and 4 the average severity is 6, where the formula of the
  claim gives \<open>round(80 / 12) = 7\<close>.
\<close>

theorem C2_average_is_not_weighted:
  "averageSeverity (calculateClusterStatistics 0 [hotspot_at 0 0 8, hotspot_at 0 0.0001 4]) = 6
   \<and> spec_aggregate_severity [hotspot_at 0 0 8, hotspot_at 0 0.0001 4] = 7"
  by (simp add: calculateClusterStatistics_def lodash_mean_def spec_aggregate_severity_def
      Let_def round_def)

text \<open>
  C2 (amended): for a non-empty member list, the severity attached to the cluster
  (\<open>averageSeverity\<close>) is the unweighted arithmetic mean of the members' severities,
  neither rounded nor clamped; it lies in \<open>[1, 10]\<close> whenever every member's severity does.
\<close>

theorem C2_average:
  assumes "members \<noteq> []"
  shows "averageSeverity (calculateClusterStatistics now members)
           = sum_list (map severity_of members) / real (length members)
       \<and> ((\<forall>h\<in>set members. 1 \<le> severity_of h \<and> severity_of h \<le> 10)
            \<longrightarrow> 1 \<le> averageSeverity (calculateClusterStatistics now members)
              \<and> averageSeverity (calculateClusterStatistics now members) \<le> 10)"
proof -
  have avg: "averageSeverity (calculateClusterStatistics now members)
           = sum_list (map severity_of members) / real (length members)"
    using assms by (simp add: calculateClusterStatistics_def lodash_mean_def Let_def)
  have n: "0 < real (length members)" using assms by simp
  {
    assume b: "\<forall>h\<in>set members. 1 \<le> severity_of h \<and> severity_of h \<le> 10"
    have "map severity_of members \<noteq> []" using assms by simp
    moreover have "\<forall>x\<in>set (map severity_of members). 1 \<le> x \<and> x \<le> 10" using b by auto
    ultimately have "1 * real (length (map severity_of members)) \<le> sum_list (map severity_of members)
       \<and> sum_list (map severity_of members) \<le> 10 * real (length (map severity_of members))"
      by (rule sum_list_bounds)
    then have "1 \<le> sum_list (map severity_of members) / real (length members)
       \<and> sum_list (map severity_of members) / real (length members) \<le> 10"
      using n by (simp add: pos_le_divide_eq pos_divide_le_eq)
  }
  with avg show ?thesis by simp
qed

theorem C2_average_witness:
  "[hotspot_at 0 0 8, hotspot_at 0 0.0001 4] \<noteq> []
   \<and> list_all (\<lambda>h. 1 \<le> severity_of h \<and> severity_of h \<le> 10) [hotspot_at 0 0 8, hotspot_at 0 0.0001 4]
   \<and> averageSeverity (calculateClusterStatistics 0 [hotspot_at 0 0 8, hotspot_at 0 0.0001 4])
       = sum_list (map severity_of [hotspot_at 0 0 8, hotspot_at 0 0.0001 4])
           / real (length [hotspot_at 0 0 8, hotspot_at 0 0.0001 4])
   \<and> 1 \<le> averageSeverity (calculateClusterStatistics 0 [hotspot_at 0 0 8, hotspot_at 0 0.0001 4])
   \<and> averageSeverity (calculateClusterStatistics 0 [hotspot_at 0 0 8, hotspot_at 0 0.0001 4]) \<le> 10"
  using C2_average [of "[hotspot_at 0 0 8, hotspot_at 0 0.0001 4]" 0] by simp

section \<open>C3: the centroid of a cluster\<close>

text \<open>
  C3 (as stated: the centroid is the severity-weighted mean of the member coordinates).
  The engine does not weight: for two points at \<open>(0, 0)\<close> with severity 1 and at
  \<open>(0.004, 0.004)\<close> with severity 3 in one DBSCAN cluster, the centroid is
  \<open>(0.002, 0.002)\<close>, and the severity-weighted mean is \<open>(0.003, 0.003)\<close>.
\<close>

theorem C3_centroid_is_not_weighted:
  "map_sum id (map centroid)
     (processDBSCANResults [0, 0] (prepareCoordinates [hotspot_at 0 0 1, hotspot_at 0.004 0.004 3])
        [hotspot_at 0 0 1, hotspot_at 0.004 0.004 3] []) = Inr [(0.002, 0.002)]
   \<and> spec_weighted_centroid [hotspot_at 0 0 1, hotspot_at 0.004 0.004 3] = (0.003, 0.003)"
  by (simp add: processDBSCANResults_def make_cluster_def prepareCoordinates_def Let_def
      calculateCentroid_def spec_weighted_centroid_def)

text \<open>
  C3 (amended): for every cluster with a non-empty member list that the engine builds on
  the DBSCAN path, the hierarchical path or as the single cluster of a small input, the
  centroid is the unweighted arithmetic mean of the members' coordinates: the sum of the
  longitudes and the sum of the latitudes, each divided by the number of members. The
  severities play no part. These are the paths that compute the centroid with
  \<^verbatim>\<open>calculateCentroid\<close>.
\<close>

theorem C3_centroid:
  assumes "processDBSCANResults labels (prepareCoordinates hotspots) hotspots ns = Inr cs
           \<or> processHierarchicalResults labels (prepareCoordinates hotspots) hotspots = Inr cs
           \<or> cs = clusters (createSingleClusterResult hotspots)"
    and "c \<in> set cs" and "memberHotspots c \<noteq> []"
  shows "centroid c =
           (sum_list (map (\<lambda>h. fst (coordinates h)) (memberHotspots c)) / real (length (memberHotspots c)),
            sum_list (map (\<lambda>h. snd (coordinates h)) (memberHotspots c)) / real (length (memberHotspots c)))"
  using assms(1)
proof (elim disjE)
  assume "processDBSCANResults labels (prepareCoordinates hotspots) hotspots ns = Inr cs"
  then have "collect (\<lambda>(cid, pis). make_cluster ''dbscan'' (prepareCoordinates hotspots) hotspots cid pis None)
               (group_dbscan [] labels 0) = Inr cs"
    by (simp add: processDBSCANResults_def)
  from collect_elem [OF this assms(2)] obtain cid pis
    where "make_cluster ''dbscan'' (prepareCoordinates hotspots) hotspots cid pis None = Inr c" by auto
  from make_cluster_centroid [OF this assms(3)] show ?thesis .
next
  assume "processHierarchicalResults labels (prepareCoordinates hotspots) hotspots = Inr cs"
  then have "collect (\<lambda>(cid, pis). make_cluster ''hierarchical'' (prepareCoordinates hotspots) hotspots cid pis None)
               (group_hierarchical [] labels 0) = Inr cs"
    by (simp add: processHierarchicalResults_def)
  from collect_elem [OF this assms(2)] obtain cid pis
    where "make_cluster ''hierarchical'' (prepareCoordinates hotspots) hotspots cid pis None = Inr c" by auto
  from make_cluster_centroid [OF this assms(3)] show ?thesis .
next
  assume cs: "cs = clusters (createSingleClusterResult hotspots)"
  show ?thesis
  proof (cases "hotspots = []")
    case True
    with cs assms(2) show ?thesis by (simp add: createSingleClusterResult_def)
  next
    case False
    with cs assms(2) show ?thesis
      by (simp add: createSingleClusterResult_def Let_def calculateCentroid_mean prepareCoordinates_def comp_def)
  qed
qed

theorem C3_centroid_witness:
  "\<exists>cs. processDBSCANResults [0, 0]
           (prepareCoordinates [hotspot_at 0 0 1, hotspot_at 0.004 0.004 3])
           [hotspot_at 0 0 1, hotspot_at 0.004 0.004 3] [] = Inr cs
      \<and> cs \<noteq> []
      \<and> list_all (\<lambda>c. memberHotspots c = [hotspot_at 0 0 1, hotspot_at 0.004 0.004 3]
                       \<and> centroid c = (0.002, 0.002)) cs"
proof -
  let ?hs = "[hotspot_at 0 0 1, hotspot_at 0.004 0.004 3]"
  have "\<exists>c. processDBSCANResults [0, 0] (prepareCoordinates ?hs) ?hs [] = Inr [c]
          \<and> memberHotspots c = ?hs"
    by (simp add: processDBSCANResults_def make_cluster_def prepareCoordinates_def Let_def)
  then obtain c where run: "processDBSCANResults [0, 0] (prepareCoordinates ?hs) ?hs [] = Inr [c]"
    and members: "memberHotspots c = ?hs" by blast
  have "centroid c =
          (sum_list (map (\<lambda>h. fst (coordinates h)) (memberHotspots c)) / real (length (memberHotspots c)),
           sum_list (map (\<lambda>h. snd (coordinates h)) (memberHotspots c)) / real (length (memberHotspots c)))"
  proof (rule C3_centroid [where cs = "[c]" and ns = "[]" and labels = "[0, 0]" and hotspots = ?hs])
    show "processDBSCANResults [0, 0] (prepareCoordinates ?hs) ?hs [] = Inr [c]
          \<or> processHierarchicalResults [0, 0] (prepareCoordinates ?hs) ?hs = Inr [c]
          \<or> [c] = clusters (createSingleClusterResult ?hs)"
      using run by (rule disjI1)
    show "c \<in> set [c]" by simp
    show "memberHotspots c \<noteq> []" by (simp add: members)
  qed
  then have "centroid c = (0.002, 0.002)" by (simp add: members)
  with run members show ?thesis by simp
qed

section \<open>C4: inputs smaller than the minimum cluster size\<close>

text \<open>
  C4 (as stated: an input with fewer points than the minimum gives one singleton cluster
  per point). The engine puts all the points of such an input into one cluster: with a
  minimum of 3, two far-apart points come back as a single cluster with the members 0
  and 1.
\<close>

theorem C4_one_cluster_for_all:
  "map_sum id (\<lambda>r. map memberIndices (clusters r))
     (runClustering (scripted_library [- 1, - 1]) 0 [hotspot_at 0 0 5, hotspot_at 50 50 5]
        \<lparr> o_algorithm = None, o_parameters = Some (no_parameters \<lparr> minPoints := Some 3 \<rparr>),
          minClusterSize = Some 3, maxClusters = None \<rparr>)
   = Inr [[0, 1]]"
  by (simp add: runClustering_def default_to_def object_prototype_names_def
      createSingleClusterResult_def prepareCoordinates_def Let_def)

text \<open>
  C4 (amended): when the algorithm name passes the engine's lookup and the input has
  fewer points than \<open>minClusterSize\<close> (default 2), the engine returns the result of
  \<^verbatim>\<open>createSingleClusterResult\<close> whatever the clustering libraries would answer (no
  grouping is attempted): the empty cluster list for the empty input, and for a non-empty
  input exactly one cluster whose members are all the input points, in input order.
\<close>

theorem C4_small_input:
  assumes "default_to ''dbscan'' (o_algorithm opts)
             \<in> set [''dbscan'', ''kmeans'', ''hierarchical''] \<union> set object_prototype_names"
    and "real (length hotspots) < default_to 2 (minClusterSize opts)"
  shows "runClustering L now hotspots opts = Inr (createSingleClusterResult hotspots)
       \<and> (hotspots = [] \<longrightarrow> clusters (createSingleClusterResult hotspots) = [])
       \<and> (hotspots \<noteq> [] \<longrightarrow>
            map memberHotspots (clusters (createSingleClusterResult hotspots)) = [hotspots]
          \<and> map memberIndices (clusters (createSingleClusterResult hotspots)) = [[0 ..< length hotspots]]
          \<and> map size_c (clusters (createSingleClusterResult hotspots)) = [length hotspots])"
  using assms
  by (simp add: runClustering_def Let_def prepareCoordinates_def createSingleClusterResult_def)

theorem C4_small_input_witness:
  "runClustering (scripted_library [- 1, - 1]) 0 [hotspot_at 0 0 5, hotspot_at 50 50 5]
        (default_options \<lparr> minClusterSize := Some 3 \<rparr>)
     = Inr (createSingleClusterResult [hotspot_at 0 0 5, hotspot_at 50 50 5])
   \<and> map memberHotspots (clusters (createSingleClusterResult [hotspot_at 0 0 5, hotspot_at 50 50 5]))
       = [[hotspot_at 0 0 5, hotspot_at 50 50 5]]
   \<and> runClustering (scripted_library []) 0 [] default_options = Inr (createSingleClusterResult [])
   \<and> clusters (createSingleClusterResult []) = []"
  using C4_small_input [of "default_options \<lparr> minClusterSize := Some 3 \<rparr>"
      "[hotspot_at 0 0 5, hotspot_at 50 50 5]" "scripted_library [- 1, - 1]" 0]
    C4_small_input [of default_options "[]" "scripted_library []" 0]
  by (simp add: default_options_def default_to_def)

section \<open>C6: the default number of k-means clusters\<close>

text \<open>
  C6 (as stated: without a given \<open>k\<close> the k-means method uses
  \<open>clamp(round(sqrt(n / 2)), 2, 5)\<close> clusters). The default of \<^verbatim>\<open>runKMeans\<close> is
  \<open>min(5, ceil(n / 3))\<close>: for 8 points it is 3 where the claim's formula gives 2, and for
  2 points it is 1, below the claimed lower bound 2.
\<close>

theorem C6_default_k_differs:
  "kmeans_default_k 8 = 3 \<and> spec_kmeans_k 8 = 2 \<and> kmeans_default_k 2 = 1 \<and> spec_kmeans_k 2 = 2"
  by (simp add: kmeans_default_k_def spec_kmeans_k_def round_def)

text \<open>
  C6 (amended): when \<^verbatim>\<open>runKMeans\<close> runs on \<open>n\<close> points with no \<open>k\<close> among its
  parameters and returns, the number of clusters it asked the library for, and reports in
  the result's parameters, is \<open>min(5, ceil(n / 3))\<close>, that is \<open>min(5, (n + 2) div 3)\<close>.
\<close>

theorem C6_default_k:
  assumes "k params = None" and "runKMeans L coords params hotspots = Inr r"
  shows "k (r_parameters r) = Some (real_of_int (min 5 ((int (length coords) + 2) div 3)))
       \<and> (\<exists>kr. lib_kmeans L coords (real_of_int (min 5 ((int (length coords) + 2) div 3)))
                  (default_to 100 (iterations params)) (default_to (1 / 10000) (tolerance params)) = Inr kr)"
  using assms
  by (auto simp: runKMeans_def Let_def default_to_def kmeans_default_k_int no_parameters_def
      split: sum.splits)

theorem C6_default_k_witness:
  "\<exists>r. runKMeans (scripted_kmeans_library [0, 0] [(0, 0.0005)])
          (prepareCoordinates [hotspot_at 0 0 5, hotspot_at 0 0.001 5]) no_parameters
          [hotspot_at 0 0 5, hotspot_at 0 0.001 5] = Inr r
      \<and> k (r_parameters r) = Some 1"
proof -
  have none: "k no_parameters = None" by (simp add: no_parameters_def)
  have "\<exists>r. runKMeans (scripted_kmeans_library [0, 0] [(0, 0.0005)])
          (prepareCoordinates [hotspot_at 0 0 5, hotspot_at 0 0.001 5]) no_parameters
          [hotspot_at 0 0 5, hotspot_at 0 0.001 5] = Inr r"
    by (simp add: runKMeans_def scripted_kmeans_library_def processKMeansResults_def
        kmeans_members_def make_cluster_def prepareCoordinates_def Let_def)
  then obtain r where r: "runKMeans (scripted_kmeans_library [0, 0] [(0, 0.0005)])
          (prepareCoordinates [hotspot_at 0 0 5, hotspot_at 0 0.001 5]) no_parameters
          [hotspot_at 0 0 5, hotspot_at 0 0.001 5] = Inr r" ..
  from C6_default_k [OF none r] have "k (r_parameters r) = Some 1"
    by (simp add: prepareCoordinates_def)
  with r show ?thesis by blast
qed

section \<open>C7: the order of the returned clusters\<close>

text \<open>
  C7 (as stated: clusters are sorted by descending member count, ties broken by descending
  aggregate severity, then by ascending centroid latitude). The engine sorts by size only.
  Four points in two DBSCAN clusters of two, the first pair of severity 3 and the second
  of severity 8: the cluster of severity 3 comes first, so the returned list is not in the
  claimed order.
\<close>

theorem C7_ties_keep_input_order:
  "map_sum id (\<lambda>r. (map (\<lambda>c. (memberIndices c, size_c c, cluster_severity c)) (clusters r),
                    sorted_wrt spec_cluster_order (clusters r)))
     (runClustering (scripted_library [0, 0, 1, 1]) 0
        [hotspot_at 0 0 3, hotspot_at 0 0.001 3, hotspot_at 50 50 8, hotspot_at 50 50.001 8]
        default_options)
   = Inr ([([0, 1], 2, 3), ([2, 3], 2, 8)], False)"
  by (simp add: runClustering_def default_options_def default_to_def scripted_library_def
      run_algorithm_def runDBSCAN_def object_prototype_names_def
      processDBSCANResults_def make_cluster_def prepareCoordinates_def Let_def
      postProcessClusters_def annotate_def calculateClusterStatistics_def lodash_mean_def
      spec_cluster_order_def cluster_severity_def)

text \<open>
  C7 (amended): post-processing returns the clusters sorted by descending member count,
  and clusters with the same member count keep the order they had before (the sort is
  stable); severity and latitude play no part in the order.
\<close>

theorem C7_order:
  "sorted_wrt (\<lambda>a b. size_c b \<le> size_c a) (clusters (postProcessClusters now res hotspots alg params))
   \<and> (\<forall>n. map core (filter (\<lambda>c. size_c c = n) (clusters (postProcessClusters now res hotspots alg params)))
          = map core (filter (\<lambda>c. size_c c = n) (clusters res)))"
proof -
  let ?out = "clusters (postProcessClusters now res hotspots alg params)"
  let ?srt = "sort_key (\<lambda>c. - int (size_c c)) (clusters res)"
  have core_eq: "map core ?out = map core ?srt"
    by (rule postProcess_map) (simp add: core_def)
  have size_eq: "map size_c ?out = map size_c ?srt"
    by (rule postProcess_map) simp
  have "sorted_wrt (\<lambda>a b. b \<le> a) (map size_c ?srt)"
    using sorted_desc_size [of "clusters res"] by (simp add: sorted_wrt_map)
  then have s: "sorted_wrt (\<lambda>a b. size_c b \<le> size_c a) ?out"
    by (simp add: sorted_wrt_map flip: size_eq)
  have st: "map core (filter (\<lambda>c. size_c c = n) ?out) = map core (filter (\<lambda>c. size_c c = n) (clusters res))" for n
  proof -
    have "map core (filter (\<lambda>c. size_c c = n) ?out) = filter (\<lambda>t. snd (snd (snd (snd (snd t)))) = n) (map core ?out)"
      by (simp add: filter_map comp_def core_def)
    also have "\<dots> = filter (\<lambda>t. snd (snd (snd (snd (snd t)))) = n) (map core ?srt)"
      by (simp only: core_eq)
    also have "\<dots> = map core (filter (\<lambda>c. size_c c = n) ?srt)"
      by (simp add: filter_map comp_def core_def)
    also have "filter (\<lambda>c. size_c c = n) ?srt = filter (\<lambda>c. - int (size_c c) = - int n) ?srt"
      by simp
    also have "\<dots> = filter (\<lambda>c. - int (size_c c) = - int n) (clusters res)"
      by (rule sort_key_stable)
    finally show ?thesis by simp
  qed
  from s st show ?thesis by blast
qed

section \<open>C8: invalid configurations\<close>






section \<open>C9: the 2-opt pass never makes the route worse\<close>

lemma calculateDistance_sym: "calculateDistance lat1 lon1 lat2 lon2 = calculateDistance lat2 lon2 lat1 lon1"
proof -
  have a: "sin ((lat2 - lat1) * pi / 180 / 2) = - sin ((lat1 - lat2) * pi / 180 / 2)"
    by (metis (no_types, opaque_lifting) minus_diff_eq minus_divide_left mult_minus_left sin_minus)
  have b: "sin ((lon2 - lon1) * pi / 180 / 2) = - sin ((lon1 - lon2) * pi / 180 / 2)"
    by (metis (no_types, opaque_lifting) minus_diff_eq minus_divide_left mult_minus_left sin_minus)
  show ?thesis
    unfolding calculateDistance_def Let_def a b by (simp add: mult.commute)
qed

lemma distance_m_sym: "distance_m a b = distance_m b a"
  unfolding distance_m_def by (rule calculateDistance_sym)

lemma path_length_append:
  "xs \<noteq> [] \<Longrightarrow> ys \<noteq> [] \<Longrightarrow>
     path_length (xs @ ys) = path_length xs + distance_m (last xs) (hd ys) + path_length ys"
proof (induction xs rule: path_length.induct)
  case (1 a b rest)
  then show ?case by simp
next
  case (2 a)
  then show ?case by (cases ys) simp_all
next
  case 3
  then show ?case by simp
qed

lemma path_length_snoc:
  "xs \<noteq> [] \<Longrightarrow> path_length (xs @ [y]) = path_length xs + distance_m (last xs) y"
  using path_length_append [of xs "[y]"] by simp

lemma path_length_rev: "path_length (rev xs) = path_length xs"
proof (induction xs rule: path_length.induct)
  case (1 a b rest)
  have "path_length (rev (a # b # rest)) = path_length (rev (b # rest) @ [a])" by simp
  also have "\<dots> = path_length (rev (b # rest)) + distance_m (last (rev (b # rest))) a"
    by (rule path_length_snoc) simp
  also have "last (rev (b # rest)) = b" by simp
  finally show ?case using 1 by (simp add: distance_m_sym)
qed simp_all

lemma path_length_reverse_middle:
  assumes "pa \<noteq> []" and "pm \<noteq> []" and "pb \<noteq> []"
  shows "path_length (pa @ rev pm @ pb) =
           path_length (pa @ pm @ pb)
           + distance_m (last pa) (last pm) + distance_m (hd pm) (hd pb)
           - distance_m (last pa) (hd pm) - distance_m (last pm) (hd pb)"
proof -
  have 1: "path_length (pa @ pm @ pb) =
             path_length pa + distance_m (last pa) (hd pm) + path_length pm
             + distance_m (last pm) (hd pb) + path_length pb"
    using assms by (simp add: path_length_append)
  have "path_length (pa @ rev pm @ pb) =
             path_length pa + distance_m (last pa) (hd (rev pm)) + path_length (rev pm)
             + distance_m (last (rev pm)) (hd pb) + path_length pb"
    using assms by (simp add: path_length_append)
  then have 2: "path_length (pa @ rev pm @ pb) =
             path_length pa + distance_m (last pa) (last pm) + path_length pm
             + distance_m (hd pm) (hd pb) + path_length pb"
    using assms(2) by (simp add: hd_rev last_rev path_length_rev)
  from 1 2 show ?thesis by simp
qed

lemma reverse_segment_facts:
  assumes "i + 2 \<le> j" and "j + 1 < length r"
  shows "length (reverse_segment r i j) = length r"
    and "hd (reverse_segment r i j) = hd r"
    and "path_length (map node_position (reverse_segment r i j))
           = path_length (map node_position r) + two_opt_delta r i j"
proof -
  let ?A = "take (i + 1) r" and ?M = "take (j - i) (drop (i + 1) r)" and ?B = "drop (j + 1) r"
  have split: "r = ?A @ ?M @ ?B"
  proof -
    have "drop (i + 1) r = ?M @ drop (j - i) (drop (i + 1) r)"
      by (simp only: append_take_drop_id)
    also have "drop (j - i) (drop (i + 1) r) = drop (j - i + (i + 1)) r"
      by (simp only: drop_drop)
    also have "j - i + (i + 1) = j + 1" using assms(1) by simp
    finally have "drop (i + 1) r = ?M @ ?B" .
    then have "?A @ drop (i + 1) r = ?A @ ?M @ ?B" by simp
    then show ?thesis by simp
  qed
  have neA: "?A \<noteq> []" and neM: "?M \<noteq> []" and neB: "?B \<noteq> []"
    using assms by auto
  show "length (reverse_segment r i j) = length r"
    using assms by (simp add: reverse_segment_def)
  show "hd (reverse_segment r i j) = hd r"
    using assms by (cases r) (simp_all add: reverse_segment_def)
  have lastA: "last ?A = r ! i"
    using neA assms by (simp add: last_conv_nth min_def)
  have hdM: "hd ?M = r ! (i + 1)"
    using assms by (simp add: hd_take hd_drop_conv_nth)
  have lastM: "last ?M = r ! j"
  proof -
    have "length ?M = j - i" using assms by simp
    with neM have "last ?M = ?M ! (j - i - 1)" by (simp add: last_conv_nth)
    also have "\<dots> = drop (i + 1) r ! (j - i - 1)" using assms by simp
    also have "\<dots> = r ! (i + 1 + (j - i - 1))" using assms by (intro nth_drop) simp
    also have "i + 1 + (j - i - 1) = j" using assms by simp
    finally show ?thesis .
  qed
  have hdB: "hd ?B = r ! (j + 1)"
    using assms by (simp add: hd_drop_conv_nth)
  let ?P = "map node_position"
  have "path_length (?P (reverse_segment r i j)) = path_length (?P ?A @ rev (?P ?M) @ ?P ?B)"
    by (simp add: reverse_segment_def rev_map)
  also have "\<dots> = path_length (?P ?A @ ?P ?M @ ?P ?B)
        + distance_m (last (?P ?A)) (last (?P ?M)) + distance_m (hd (?P ?M)) (hd (?P ?B))
        - distance_m (last (?P ?A)) (hd (?P ?M)) - distance_m (last (?P ?M)) (hd (?P ?B))"
    using neA neM neB by (intro path_length_reverse_middle) simp_all
  also have "?P ?A @ ?P ?M @ ?P ?B = ?P r"
    using split by (metis map_append)
  finally show "path_length (?P (reverse_segment r i j)) = path_length (?P r) + two_opt_delta r i j"
    using neA neM neB
    by (simp add: last_map hd_map lastA hdM lastM hdB two_opt_delta_def del: One_nat_def)
qed

lemma edge_pairs_valid: "(i, j) \<in> set (edge_pairs n) \<Longrightarrow> i + 2 \<le> j \<and> j + 1 < n"
  by (auto simp: edge_pairs_def)

lemma two_opt_steps:
  assumes "\<forall>p\<in>set ps. fst p + 2 \<le> snd p \<and> snd p + 1 < length r"
  shows "length (foldl two_opt_step r ps) = length r
       \<and> hd (foldl two_opt_step r ps) = hd r
       \<and> path_length (map node_position (foldl two_opt_step r ps)) \<le> path_length (map node_position r)"
  using assms
proof (induction ps arbitrary: r)
  case Nil
  then show ?case by simp
next
  case (Cons p ps)
  let ?r' = "two_opt_step r p"
  have v: "fst p + 2 \<le> snd p" "snd p + 1 < length r" using Cons.prems by simp_all
  have step: "length ?r' = length r \<and> hd ?r' = hd r
       \<and> path_length (map node_position ?r') \<le> path_length (map node_position r)"
    using reverse_segment_facts [OF v] by (simp add: two_opt_step_def)
  then have "\<forall>q\<in>set ps. fst q + 2 \<le> snd q \<and> snd q + 1 < length ?r'"
    using Cons.prems by simp
  from Cons.IH [OF this] step show ?case by simp
qed

lemma two_opt_pass_facts:
  "length (two_opt_pass r) = length r \<and> hd (two_opt_pass r) = hd r
   \<and> path_length (map node_position (two_opt_pass r)) \<le> path_length (map node_position r)"
  unfolding two_opt_pass_def
  by (rule two_opt_steps) (auto dest: edge_pairs_valid)

lemma route_distance_two_opt: "route_distance start (two_opt_pass r) \<le> route_distance start r"
proof (cases start)
  case None
  then show ?thesis using two_opt_pass_facts [of r] by (simp add: route_distance_def)
next
  case (Some s)
  show ?thesis
  proof (cases r)
    case Nil
    then show ?thesis by (simp add: two_opt_pass_def edge_pairs_def)
  next
    case (Cons x xs)
    with two_opt_pass_facts [of r] obtain y ys where y: "two_opt_pass r = y # ys" and "y = x"
      and le: "path_length (map node_position (y # ys)) \<le> path_length (map node_position (x # xs))"
      by (cases "two_opt_pass r") auto
    then show ?thesis using Some Cons by (simp add: route_distance_def)
  qed
qed

text \<open>
  C9: for every list of nodes and every optional start point, the total distance of the
  route that \<^verbatim>\<open>optimize_route\<close> returns (nearest neighbour, then the single 2-opt pass)
  is at most the total distance of the nearest-neighbour route for the same input.
\<close>

theorem C9_two_opt_non_regression:
  "total_distance_m (optimize_route nodes start)
     \<le> route_distance start (nearest_neighbor_route nodes start)"
  by (simp add: optimize_route_def Let_def route_distance_two_opt)

section \<open>C10: the priority score and the priority level\<close>

lemma score_step_mono: "0 \<le> severity_of h \<Longrightarrow> score \<le> score_step now score h"
  by (simp add: score_step_def Let_def)

lemma foldl_score_nonneg:
  "\<forall>h\<in>set hs. 0 \<le> severity_of h \<Longrightarrow> 0 \<le> a \<Longrightarrow> 0 \<le> foldl (score_step now) a hs"
proof (induction hs arbitrary: a)
  case Nil
  then show ?case by simp
next
  case (Cons h hs)
  have "a \<le> score_step now a h" using Cons.prems(1) by (simp add: score_step_mono)
  with Cons.prems(2) have "0 \<le> score_step now a h" by linarith
  with Cons show ?case by simp
qed

lemma priority_score_range:
  assumes "\<forall>h\<in>set members. 0 \<le> severity_of h"
  shows "0 \<le> calculateClusterPriorityScore now members \<and> calculateClusterPriorityScore now members \<le> 100"
proof -
  have "0 \<le> foldl (score_step now) 0 members" using assms by (simp add: foldl_score_nonneg)
  then have "0 \<le> round (foldl (score_step now) 0 members)" by (simp add: round_def)
  then show ?thesis by (simp add: calculateClusterPriorityScore_def)
qed

lemma statistics_score:
  "priorityScore (calculateClusterStatistics now members) = calculateClusterPriorityScore now members"
  by (simp add: calculateClusterStatistics_def calculateClusterPriorityScore_def Let_def)

text \<open>
  C10: for a member list whose severities are all non-negative,
  \<^verbatim>\<open>calculateClusterPriorityScore\<close> returns an integer between 0 and 100; every cluster
  that post-processing returns carries statistics whose priority score is that function
  of the cluster's member hotspots, hence between 0 and 100 when their severities are
  non-negative, and a priority level fixed by the score alone: critical from 80, high
  from 60, medium from 40, low below.
\<close>

theorem C10_priority:
  "((\<forall>h\<in>set members. 0 \<le> severity_of h)
      \<longrightarrow> 0 \<le> calculateClusterPriorityScore now members
        \<and> calculateClusterPriorityScore now members \<le> 100)
   \<and> (\<forall>c\<in>set (clusters (postProcessClusters now res hotspots alg params)).
         \<exists>s. statistics c = Some s
            \<and> priorityScore s = calculateClusterPriorityScore now (memberHotspots c)
            \<and> ((\<forall>h\<in>set (memberHotspots c). 0 \<le> severity_of h)
                  \<longrightarrow> 0 \<le> priorityScore s \<and> priorityScore s \<le> 100)
            \<and> priorityLevel c = Some (if priorityScore s \<ge> 80 then critical
                                      else if priorityScore s \<ge> 60 then high
                                      else if priorityScore s \<ge> 40 then medium
                                      else low))"
proof -
  have "\<exists>s. statistics c = Some s
            \<and> priorityScore s = calculateClusterPriorityScore now (memberHotspots c)
            \<and> ((\<forall>h\<in>set (memberHotspots c). 0 \<le> severity_of h)
                  \<longrightarrow> 0 \<le> priorityScore s \<and> priorityScore s \<le> 100)
            \<and> priorityLevel c = Some (if priorityScore s \<ge> 80 then critical
                                      else if priorityScore s \<ge> 60 then high
                                      else if priorityScore s \<ge> 40 then medium
                                      else low)"
    if c: "c \<in> set (clusters (postProcessClusters now res hotspots alg params))" for c
  proof -
    from postProcess_elem [OF c] obtain i c0 where c0: "c = annotate now alg params i c0" by blast
    show ?thesis
      using priority_score_range [of "memberHotspots c0" now]
      by (simp add: c0 statistics_score calculatePriorityLevel_def Let_def)
  qed
  with priority_score_range [of members now] show ?thesis by blast
qed

theorem C10_priority_witness:
  "list_all (\<lambda>h. 0 \<le> severity_of h) [hotspot_at 0 0 8, hotspot_at 0 0.0001 4]
   \<and> 0 \<le> calculateClusterPriorityScore 0 [hotspot_at 0 0 8, hotspot_at 0 0.0001 4]
   \<and> calculateClusterPriorityScore 0 [hotspot_at 0 0 8, hotspot_at 0 0.0001 4] \<le> 100
   \<and> map (\<lambda>c. (map_option priorityScore (statistics c), priorityLevel c))
        (clusters (postProcessClusters 0
           (createSingleClusterResult [hotspot_at 0 0 8, hotspot_at 0 0.0001 4])
           [hotspot_at 0 0 8, hotspot_at 0 0.0001 4] ''dbscan'' no_parameters))
       = [(Some 24, Some low)]"
  using C10_priority [of "[hotspot_at 0 0 8, hotspot_at 0 0.0001 4]" 0
      "createSingleClusterResult [hotspot_at 0 0 8, hotspot_at 0 0.0001 4]"
      "[hotspot_at 0 0 8, hotspot_at 0 0.0001 4]" "''dbscan''" no_parameters]
  by (simp add: postProcessClusters_def createSingleClusterResult_def Let_def statistics_score
      calculatePriorityLevel_def calculateClusterPriorityScore_def score_step_def round_def
      hotspot_at_def severity_of_def calculated_severity_def)

end
